theory Spec2Isabelle
  imports Main "HOL-Library.Sublist"
begin

section \<open>The \<open>open\<close> command of the CLI (packages/cli/src/commands/open.ts)\<close>

text \<open>
  The command is a sequential piece of glue: it parses its arguments, resolves the scope,
  validates the working directory, links the project, performs three REST lookups, shows a
  four-item menu and launches the operating system's \<open>open\<close> program on the pick.

  The collaborators imported by the file (\<open>getArgs\<close>, \<open>getScope\<close>, \<open>validatePaths\<close>,
  \<open>ensureLink\<close>, \<open>client.fetch\<close>, \<open>list\<close>, \<open>chalk.cyan\<close>, \<open>getCommandName\<close>, \<open>link\<close>,
  \<open>querystring.escape\<close>, \<open>process.cwd\<close>) live outside the file. They are fields of the
  record \<open>env\<close>: what each of them answers in one run. What the command itself does to the
  outside (printing, assigning \<open>client.config.currentTeam\<close>, fetching, prompting, spawning
  a subprocess) is recorded, in program order, in the list \<open>effects\<close> of the client state.
\<close>

subsection \<open>Data\<close>

text \<open>\<open>Org\<close>: \<open>type\<close> is \<open>'user' | 'team'\<close>.\<close>

datatype org_type = OrgUser | OrgTeam

record org =
  org_id :: string
  org_slug :: string
  org_type :: org_type

record team =
  team_id :: string

text \<open>
  The records read from the REST answer. A field that the source reads through \<open>?.\<close> or
  tests for truthiness may be \<open>undefined\<close>: it is an \<open>option\<close>, \<open>None\<close> for \<open>undefined\<close>.
\<close>

record deployment =
  dpl_id :: "string option"
  dpl_url :: "string option"

record targets =
  production :: "deployment option"

record project =
  proj_name :: string
  latestDeployments :: "deployment list option"
  proj_targets :: "targets option"

text \<open>A thrown JavaScript error: the command reads \<open>err.code\<close> and \<open>err.message\<close>.\<close>

record js_error =
  err_code :: "string option"
  err_message :: string

record argv =
  arg_help :: bool
  arg_yes :: bool

record scope =
  scope_team :: "team option"

datatype validate_result = Invalid (exitCode: int) | Valid (valid_path: string)

text \<open>\<open>ensureLink\<close> answers a number (an exit code) or the linked project and org.\<close>

datatype link_result = LinkExit int | Linked project org

record choice =
  choice_name :: string
  choice_value :: string
  choice_short :: string

datatype effect =
    HandleError js_error
  | PrintHelp
  | OutputError string
  | OutputLog string
  | SetCurrentTeam "string option"
  | Fetch string
  | ListPrompt string "choice list"
  | Execa string "string list"

text \<open>
  \<open>client.config\<close>: the field this file touches, and all the others together in \<open>other\<close>.
\<close>

record 'r client_config =
  currentTeam :: "string option"
  other :: 'r

text \<open>
  The client state: its configuration, the number of \<open>client.fetch\<close> calls issued so far
  (the \<open>k\<close>-th call is answered by \<open>fetch env k\<close>, so that successive calls may be answered
  differently), and the effects so far, oldest first.
\<close>

record 'r client =
  config :: "'r client_config"
  fetched :: nat
  effects :: "effect list"

record env =
  getArgs :: "js_error + argv"
  getScope :: "js_error + scope"
  cwd :: string
  validatePaths :: "string list \<Rightarrow> validate_result"
  ensureLink :: "string \<Rightarrow> string \<Rightarrow> bool \<Rightarrow> link_result"
  fetch :: "nat \<Rightarrow> js_error + project"
  list_prompt :: "string \<Rightarrow> choice list \<Rightarrow> string"
  qs_escape :: "string \<Rightarrow> string"
  chalk_cyan :: "string \<Rightarrow> string"
  getCommandName :: "string \<Rightarrow> string"
  link :: "string \<Rightarrow> string"

text \<open>How a run of the command ends: it returns a number or throws.\<close>

datatype outcome = Returned int | Thrown js_error

subsection \<open>JavaScript primitives\<close>

text \<open>A string or \<open>undefined\<close> is truthy when it is a non-empty string.\<close>

fun truthy :: "string option \<Rightarrow> bool" where
  "truthy None = False"
| "truthy (Some s) = (s \<noteq> [])"

text \<open>\<open>x || d\<close> on a string or \<open>undefined\<close>.\<close>

definition or_else :: "string option \<Rightarrow> string \<Rightarrow> string" where
  "or_else x d = (case x of None \<Rightarrow> d | Some s \<Rightarrow> if s = [] then d else s)"

text \<open>A template literal prints \<open>undefined\<close> as the text \<open>undefined\<close>.\<close>

fun template :: "string option \<Rightarrow> string" where
  "template None = ''undefined''"
| "template (Some s) = s"

text \<open>
  \<open>String.prototype.replace\<close> with a string pattern: the first occurrence only, wherever
  it is; the replacement used here has no \<open>$\<close> pattern.
\<close>

fun replace_first :: "string \<Rightarrow> string \<Rightarrow> string \<Rightarrow> string" where
  "replace_first pat rep [] = (if pat = [] then rep else [])"
| "replace_first pat rep (c # cs) =
     (if prefix pat (c # cs) then rep @ drop (length pat) (c # cs)
      else c # replace_first pat rep cs)"

text \<open>\<open>querystring.stringify({ teamId: v })\<close>; an undefined value prints as empty.\<close>

definition stringify_teamId :: "env \<Rightarrow> string option \<Rightarrow> string" where
  "stringify_teamId e v =
     ''teamId='' @ (case v of None \<Rightarrow> [] | Some s \<Rightarrow> qs_escape e s)"

definition emit :: "effect \<Rightarrow> 'r client \<Rightarrow> 'r client" where
  "emit x c = c\<lparr>effects := effects c @ [x]\<rparr>"

subsection \<open>The URL helpers (lines 157 to 214)\<close>

definition getDashboardUrl :: "org \<Rightarrow> project \<Rightarrow> string" where
  "getDashboardUrl org project =
     ''https://vercel.com/'' @ org_slug org @ ''/'' @ proj_name project"

definition project_url :: "env \<Rightarrow> project \<Rightarrow> team option \<Rightarrow> string" where
  "project_url e project team =
     ''/v9/projects/'' @ proj_name project @ ''?'' @
       stringify_teamId e (map_option team_id team)"

text \<open>
  \<open>getProject\<close>: one fetch; a rejection is caught, its message goes to \<open>output.error\<close>
  and the answer is \<open>undefined\<close>.
\<close>

definition getProject ::
  "env \<Rightarrow> project \<Rightarrow> team option \<Rightarrow> 'r client \<Rightarrow> project option \<times> 'r client" where
  "getProject e project team c =
     (let k = fetched c;
          c1 = emit (Fetch (project_url e project team)) (c\<lparr>fetched := Suc k\<rparr>)
      in case fetch e k of
           Inl err \<Rightarrow> (None, emit (OutputError (err_message err)) c1)
         | Inr proj \<Rightarrow> (Some proj, c1))"

text \<open>\<open>proj.latestDeployments?.[0]\<close>\<close>

definition first_deployment :: "project \<Rightarrow> deployment option" where
  "first_deployment proj =
     (case latestDeployments proj of
        None \<Rightarrow> None
      | Some [] \<Rightarrow> None
      | Some (d # _) \<Rightarrow> Some d)"

definition getInspectorUrl ::
  "env \<Rightarrow> project \<Rightarrow> org \<Rightarrow> team option \<Rightarrow> 'r client \<Rightarrow> string option \<times> 'r client" where
  "getInspectorUrl e project org team c =
     (case getProject e project team c of
        (None, c') \<Rightarrow> (None, c')
      | (Some proj, c') \<Rightarrow>
          (let latestDeploymentId =
                 (case first_deployment proj of
                    None \<Rightarrow> None
                  | Some d \<Rightarrow> map_option (replace_first ''dpl_'' []) (dpl_id d))
           in if truthy latestDeploymentId
              then (Some (''https://vercel.com/'' @ org_slug org @ ''/'' @ proj_name project
                            @ ''/'' @ template latestDeploymentId), c')
              else (None, c')))"

definition getLatestDeploymentUrl ::
  "env \<Rightarrow> project \<Rightarrow> team option \<Rightarrow> 'r client \<Rightarrow> string option \<times> 'r client" where
  "getLatestDeploymentUrl e project team c =
     (case getProject e project team c of
        (None, c') \<Rightarrow> (None, c')
      | (Some proj, c') \<Rightarrow>
          (case first_deployment proj of
             None \<Rightarrow> (None, c')
           | Some d \<Rightarrow>
               if truthy (dpl_url d) then (Some (''https://'' @ template (dpl_url d)), c')
               else (None, c')))"

text \<open>
  \<open>getLatestProdDeployment\<close> tests \<open>proj?.targets?.production\<close>, an object, and then
  prints its \<open>url\<close> into the template.
\<close>

definition getLatestProdDeployment ::
  "env \<Rightarrow> project \<Rightarrow> team option \<Rightarrow> 'r client \<Rightarrow> string option \<times> 'r client" where
  "getLatestProdDeployment e project team c =
     (case getProject e project team c of
        (None, c') \<Rightarrow> (None, c')
      | (Some proj, c') \<Rightarrow>
          (case proj_targets proj of
             None \<Rightarrow> (None, c')
           | Some t \<Rightarrow>
               (case production t of
                  None \<Rightarrow> (None, c')
                | Some d \<Rightarrow> (Some (''https://'' @ template (dpl_url d)), c'))))"

subsection \<open>The command (lines 50 to 155)\<close>

definition menu :: "string \<Rightarrow> string option \<Rightarrow> string option \<Rightarrow> string option \<Rightarrow> choice list" where
  "menu dashboardUrl inspectorUrl latestDeploymentUrl latestProductionDeployment =
     [\<lparr>choice_name = ''Dashboard'', choice_value = dashboardUrl,
        choice_short = ''Dashboard''\<rparr>,
      \<lparr>choice_name = ''Latest Deployment Inspector'',
        choice_value = or_else inspectorUrl ''not_found'',
        choice_short = ''Deployment Inspector''\<rparr>,
      \<lparr>choice_name = ''Latest Preview Deployment'',
        choice_value = or_else latestDeploymentUrl ''not_found'',
        choice_short = ''Latest Preview Deployment''\<rparr>,
      \<lparr>choice_name = ''Latest Production Deployment'',
        choice_value = or_else latestProductionDeployment ''not_found'',
        choice_short = ''Latest Production Deployment''\<rparr>]"

definition no_deployments_message :: "env \<Rightarrow> string" where
  "no_deployments_message e =
     ''No deployments found. Run '' @ chalk_cyan e (getCommandName e ''deploy'')
       @ '' to create a deployment.''"

text \<open>The confirmation line; its first four bytes are the UTF-8 of the emoji U+1FA84.\<close>

definition opened_message :: "env \<Rightarrow> string \<Rightarrow> string" where
  "opened_message e url =
     [CHR 0xF0, CHR 0x9F, CHR 0xAA, CHR 0x84] @ '' Opened '' @ link e url"

text \<open>Lines 114 to 154: the prompt and what follows from the answer.\<close>

definition pick_and_launch :: "env \<Rightarrow> choice list \<Rightarrow> 'r client \<Rightarrow> outcome \<times> 'r client" where
  "pick_and_launch e choices c =
     (let question = ''What do you want to open?'';
          picked = list_prompt e question choices;
          c1 = emit (ListPrompt question choices) c
      in if picked = ''not_found'' then
           (Returned 1, emit (OutputLog (no_deployments_message e)) c1)
         else if picked = [] then (Returned 0, c1)
         else (Returned 0,
               emit (OutputLog (opened_message e picked)) (emit (Execa ''open'' [picked]) c1)))"

text \<open>
  Lines 98 to 137: the assignment to \<open>client.config.currentTeam\<close>, the four URLs and
  the menu built from them.
\<close>

definition resolve_menu ::
  "env \<Rightarrow> project \<Rightarrow> org \<Rightarrow> team option \<Rightarrow> 'r client \<Rightarrow> choice list \<times> 'r client" where
  "resolve_menu e project org team c =
     (let v = (if org_type org = OrgTeam then Some (org_id org) else None);
          c0 = emit (SetCurrentTeam v) (c\<lparr>config := (config c)\<lparr>currentTeam := v\<rparr>\<rparr>);
          dashboardUrl = getDashboardUrl org project;
          (inspectorUrl, c1) = getInspectorUrl e project org team c0;
          (latestDeploymentUrl, c2) = getLatestDeploymentUrl e project team c1;
          (latestProductionDeployment, c3) = getLatestProdDeployment e project team c2
      in (menu dashboardUrl inspectorUrl latestDeploymentUrl latestProductionDeployment, c3))"

text \<open>Lines 98 to 154: what the command does once the project is linked.\<close>

definition open_linked ::
  "env \<Rightarrow> project \<Rightarrow> org \<Rightarrow> team option \<Rightarrow> 'r client \<Rightarrow> outcome \<times> 'r client" where
  "open_linked e project org team c =
     (case resolve_menu e project org team c of
        (choices, c3) \<Rightarrow> pick_and_launch e choices c3)"

text \<open>The whole command, \<open>open(client)\<close>.\<close>

definition open_cmd :: "env \<Rightarrow> 'r client \<Rightarrow> outcome \<times> 'r client" where
  "open_cmd e c =
     (case getArgs e of
        Inl error \<Rightarrow> (Returned 1, emit (HandleError error) c)
      | Inr argv \<Rightarrow>
          if arg_help argv then (Returned 2, emit PrintHelp c)
          else
            (let yes = arg_yes argv in
             case getScope e of
               Inl err \<Rightarrow>
                 if err_code err = Some ''NOT_AUTHORIZED'' \<or> err_code err = Some ''TEAM_DELETED''
                 then (Returned 1, emit (OutputError (err_message err)) c)
                 else (Thrown err, c)
             | Inr scope \<Rightarrow>
                 (let team = scope_team scope in
                  case validatePaths e [cwd e] of
                    Invalid code \<Rightarrow> (Returned code, c)
                  | Valid path \<Rightarrow>
                      (case ensureLink e ''project connect'' path yes of
                         LinkExit n \<Rightarrow> (Returned n, c)
                       | Linked project org \<Rightarrow> open_linked e project org team c))))"

subsection \<open>Vocabulary of the properties\<close>

text \<open>
  A run gets past project linking, with this project, org and team: the arguments parse,
  help is not asked for, the scope resolves, the path is valid and \<open>ensureLink\<close> answers
  a linked project.
\<close>

definition linked_run :: "env \<Rightarrow> project \<Rightarrow> org \<Rightarrow> team option \<Rightarrow> bool" where
  "linked_run e project org team =
     (case getArgs e of
        Inl _ \<Rightarrow> False
      | Inr a \<Rightarrow>
          \<not> arg_help a \<and>
          (case getScope e of
             Inl _ \<Rightarrow> False
           | Inr s \<Rightarrow>
               team = scope_team s \<and>
               (case validatePaths e [cwd e] of
                  Invalid _ \<Rightarrow> False
                | Valid path \<Rightarrow>
                    ensureLink e ''project connect'' path (arg_yes a) = Linked project org)))"

text \<open>The value \<open>client.config.currentTeam\<close> receives at line 99.\<close>

definition team_of_org :: "org \<Rightarrow> string option" where
  "team_of_org org = (if org_type org = OrgTeam then Some (org_id org) else None)"

text \<open>What the \<open>k\<close>-th fetch leaves in the effects.\<close>

definition fetch_trace :: "env \<Rightarrow> project \<Rightarrow> team option \<Rightarrow> nat \<Rightarrow> effect list" where
  "fetch_trace e project team k =
     Fetch (project_url e project team) #
       (case fetch e k of Inl err \<Rightarrow> [OutputError (err_message err)] | Inr _ \<Rightarrow> [])"

text \<open>The effects a run added to those the client had before.\<close>

definition new_effects :: "'r client \<Rightarrow> 'r client \<Rightarrow> effect list" where
  "new_effects c c' = drop (length (effects c)) (effects c')"

fun is_Execa :: "effect \<Rightarrow> bool" where
  "is_Execa (Execa _ _) = True"
| "is_Execa _ = False"

fun is_OutputLog :: "effect \<Rightarrow> bool" where
  "is_OutputLog (OutputLog _) = True"
| "is_OutputLog _ = False"

text \<open>The answer of the prompt in a linked run.\<close>

definition picked :: "env \<Rightarrow> project \<Rightarrow> org \<Rightarrow> team option \<Rightarrow> 'r client \<Rightarrow> string" where
  "picked e project org team c =
     list_prompt e ''What do you want to open?'' (fst (resolve_menu e project org team c))"

text \<open>The two codes of a scope error that the command reports itself.\<close>

definition auth_or_team_error :: "js_error \<Rightarrow> bool" where
  "auth_or_team_error err =
     (err_code err = Some ''NOT_AUTHORIZED'' \<or> err_code err = Some ''TEAM_DELETED'')"

text \<open>The effects of lines 99 to 112 when the next fetch is the \<open>k\<close>-th.\<close>

definition resolve_trace :: "env \<Rightarrow> project \<Rightarrow> org \<Rightarrow> team option \<Rightarrow> nat \<Rightarrow> effect list" where
  "resolve_trace e project org team k =
     SetCurrentTeam (team_of_org org) #
       fetch_trace e project team k @
       fetch_trace e project team (k + 1) @
       fetch_trace e project team (k + 2)"

text \<open>
  A fetched record without deployments: its first latest deployment, if there is one, has
  neither a non-empty id nor a non-empty url, and it has no production target.
\<close>

definition no_deployments :: "project \<Rightarrow> bool" where
  "no_deployments p =
     ((case first_deployment p of
         None \<Rightarrow> True
       | Some d \<Rightarrow> \<not> truthy (dpl_id d) \<and> \<not> truthy (dpl_url d)) \<and>
      (case proj_targets p of None \<Rightarrow> True | Some t \<Rightarrow> production t = None))"

text \<open>
  Modelled from the spec: the exit codes that \<open>validatePaths\<close> and \<open>ensureLink\<close> answer.
  Both live outside this file; the interface description gives the command the exit codes
  0, 1 and 2 and no other, so the codes these two hand over to it, at the calls the command
  makes, are among them.
\<close>

definition link_code_in_range :: "link_result \<Rightarrow> bool" where
  "link_code_in_range r = (case r of LinkExit n \<Rightarrow> n \<in> {0, 1, 2} | Linked _ _ \<Rightarrow> True)"

definition helper_codes_in_range :: "env \<Rightarrow> bool" where
  "helper_codes_in_range e =
     (case validatePaths e [cwd e] of
        Invalid n \<Rightarrow> n \<in> {0, 1, 2}
      | Valid path \<Rightarrow>
          link_code_in_range (ensureLink e ''project connect'' path True) \<and>
          link_code_in_range (ensureLink e ''project connect'' path False))"

subsection \<open>Example inputs\<close>

definition acme :: org where
  "acme = \<lparr>org_id = ''team_1'', org_slug = ''acme'', org_type = OrgTeam\<rparr>"

definition site :: project where
  "site = \<lparr>proj_name = ''site'', latestDeployments = None, proj_targets = None\<rparr>"

definition fresh_client :: "unit client" where
  "fresh_client =
     \<lparr>config = \<lparr>currentTeam = Some ''team_0'', other = ()\<rparr>, fetched = 0, effects = []\<rparr>"

text \<open>A record of \<open>site\<close> as the REST endpoint answers it after a deployment.\<close>

definition deployed_site :: project where
  "deployed_site =
     \<lparr>proj_name = ''site'',
      latestDeployments =
        Some [\<lparr>dpl_id = Some ''dpl_abc123'', dpl_url = Some ''site-abc123.vercel.app''\<rparr>],
      proj_targets =
        Some \<lparr>production = Some \<lparr>dpl_id = Some ''dpl_prod1'', dpl_url = Some ''site.vercel.app''\<rparr>\<rparr>\<rparr>"

text \<open>A record whose production target is an object without \<open>url\<close>.\<close>

definition urlless_site :: project where
  "urlless_site =
     \<lparr>proj_name = ''site'', latestDeployments = None,
      proj_targets = Some \<lparr>production = Some \<lparr>dpl_id = None, dpl_url = None\<rparr>\<rparr>\<rparr>"

definition boom :: "string \<Rightarrow> js_error" where
  "boom code = \<lparr>err_code = Some code, err_message = ''failed: '' @ code\<rparr>"

text \<open>An environment with the given answers of the collaborators.\<close>

definition run_env ::
  "js_error + argv \<Rightarrow> js_error + scope \<Rightarrow> validate_result \<Rightarrow> link_result \<Rightarrow>
   (nat \<Rightarrow> js_error + project) \<Rightarrow> (string \<Rightarrow> choice list \<Rightarrow> string) \<Rightarrow> env" where
  "run_env args sc val lnk f ask =
     \<lparr>getArgs = args,
      getScope = sc,
      cwd = ''/work'',
      validatePaths = (\<lambda>ps. val),
      ensureLink = (\<lambda>n p y. lnk),
      fetch = f,
      list_prompt = ask,
      qs_escape = (\<lambda>s. s),
      chalk_cyan = (\<lambda>s. s),
      getCommandName = (\<lambda>s. ''vercel '' @ s),
      link = (\<lambda>s. s)\<rparr>"

definition parsed :: "js_error + argv" where
  "parsed = Inr \<lparr>arg_help = False, arg_yes = False\<rparr>"

definition personal :: "js_error + scope" where
  "personal = Inr \<lparr>scope_team = None\<rparr>"

text \<open>
  A run that links \<open>site\<close> of \<open>acme\<close>, with the given answers of the fetches and of
  the prompt.
\<close>

definition linked_env ::
  "(nat \<Rightarrow> js_error + project) \<Rightarrow> (string \<Rightarrow> choice list \<Rightarrow> string) \<Rightarrow> env" where
  "linked_env f ask = run_env parsed personal (Valid ''/work'') (Linked site acme) f ask"

text \<open>Answers of the prompt: the value of the \<open>i\<close>-th choice, or a fixed text.\<close>

definition pick_nth :: "nat \<Rightarrow> string \<Rightarrow> choice list \<Rightarrow> string" where
  "pick_nth i question choices = choice_value (choices ! i)"

definition answer :: "string \<Rightarrow> string \<Rightarrow> choice list \<Rightarrow> string" where
  "answer s question choices = s"

text \<open>Every fetch answers the record with deployments; the user picks the \<open>i\<close>-th choice.\<close>

definition deployed_env :: "nat \<Rightarrow> env" where
  "deployed_env i = linked_env (\<lambda>k. Inr deployed_site) (pick_nth i)"

text \<open>Every fetch answers the record without deployments.\<close>

definition empty_env :: "nat \<Rightarrow> env" where
  "empty_env i = linked_env (\<lambda>k. Inr site) (pick_nth i)"

text \<open>Every fetch answers the record whose production target has no url.\<close>

definition urlless_env :: env where
  "urlless_env = linked_env (\<lambda>k. Inr urlless_site) (pick_nth 3)"

text \<open>The user aborts the prompt.\<close>

definition abort_env :: env where
  "abort_env = linked_env (\<lambda>k. Inr deployed_site) (answer [])"

text \<open>Every fetch is rejected; the user picks the Dashboard.\<close>

definition failing_env :: env where
  "failing_env = linked_env (\<lambda>k. Inl (boom ''ECONNRESET'')) (pick_nth 0)"

text \<open>\<open>getArgs\<close> throws, as on an unknown option.\<close>

definition bad_args_env :: env where
  "bad_args_env =
     run_env (Inl (boom ''ARG_UNKNOWN_OPTION'')) personal (Valid ''/work'') (Linked site acme)
       (\<lambda>k. Inr deployed_site) (pick_nth 0)"

text \<open>\<open>--help\<close> is given.\<close>

definition help_env :: env where
  "help_env =
     run_env (Inr \<lparr>arg_help = True, arg_yes = False\<rparr>) personal (Valid ''/work'')
       (Linked site acme) (\<lambda>k. Inr deployed_site) (pick_nth 0)"

text \<open>Scope resolution throws an error with the given code.\<close>

definition scope_error_env :: "string \<Rightarrow> env" where
  "scope_error_env code =
     run_env parsed (Inl (boom code)) (Valid ''/work'') (Linked site acme)
       (\<lambda>k. Inr deployed_site) (pick_nth 0)"

text \<open>Path validation fails with exit code 1.\<close>

definition invalid_path_env :: env where
  "invalid_path_env =
     run_env parsed personal (Invalid 1) (Linked site acme) (\<lambda>k. Inr deployed_site)
       (pick_nth 0)"

text \<open>\<open>ensureLink\<close> answers the number 0: the user declines to link.\<close>

definition not_linked_env :: env where
  "not_linked_env =
     run_env parsed personal (Valid ''/work'') (LinkExit 0) (\<lambda>k. Inr deployed_site)
       (pick_nth 0)"

subsection \<open>Lemmas on the helpers\<close>

lemma getProject_eq:
  "getProject e project team c =
     (case fetch e (fetched c) of Inl _ \<Rightarrow> None | Inr proj \<Rightarrow> Some proj,
      c\<lparr>fetched := Suc (fetched c),
        effects := effects c @ fetch_trace e project team (fetched c)\<rparr>)"
  by (simp add: getProject_def fetch_trace_def emit_def Let_def split: sum.splits)

lemma getInspectorUrl_snd:
  "snd (getInspectorUrl e project org team c) = snd (getProject e project team c)"
  by (simp add: getInspectorUrl_def Let_def split: prod.splits option.splits)

lemma getLatestDeploymentUrl_snd:
  "snd (getLatestDeploymentUrl e project team c) = snd (getProject e project team c)"
  by (simp add: getLatestDeploymentUrl_def split: prod.splits option.splits)

lemma getLatestProdDeployment_snd:
  "snd (getLatestProdDeployment e project team c) = snd (getProject e project team c)"
  by (simp add: getLatestProdDeployment_def split: prod.splits option.splits)

lemma resolve_menu_unfold:
  "resolve_menu e project org team c =
     (let c0 = emit (SetCurrentTeam (team_of_org org))
                 (c\<lparr>config := (config c)\<lparr>currentTeam := team_of_org org\<rparr>\<rparr>);
          r1 = getInspectorUrl e project org team c0;
          r2 = getLatestDeploymentUrl e project team (snd r1);
          r3 = getLatestProdDeployment e project team (snd r2)
      in (menu (getDashboardUrl org project) (fst r1) (fst r2) (fst r3), snd r3))"
  by (simp add: resolve_menu_def team_of_org_def Let_def split: prod.splits)

text \<open>The client after the four URLs are resolved.\<close>

lemma resolve_menu_snd:
  "snd (resolve_menu e project org team c) =
     c\<lparr>config := (config c)\<lparr>currentTeam := team_of_org org\<rparr>,
       fetched := fetched c + 3,
       effects := effects c @ SetCurrentTeam (team_of_org org) #
         fetch_trace e project team (fetched c) @
         fetch_trace e project team (fetched c + 1) @
         fetch_trace e project team (fetched c + 2)\<rparr>"
  by (simp add: resolve_menu_unfold Let_def getInspectorUrl_snd getLatestDeploymentUrl_snd
        getLatestProdDeployment_snd getProject_eq emit_def)

lemma open_cmd_linked:
  "linked_run e project org team \<Longrightarrow> open_cmd e c = open_linked e project org team c"
  by (auto simp: linked_run_def open_cmd_def Let_def split: sum.splits validate_result.splits)

lemma replace_first_prefix:
  "prefix pat s \<Longrightarrow> replace_first pat rep s = rep @ drop (length pat) s"
  by (cases s) auto

lemma replace_first_at:
  "(\<forall>i<length a. \<not> prefix pat (drop i (a @ pat @ b))) \<Longrightarrow>
     replace_first pat rep (a @ pat @ b) = a @ rep @ b"
proof (induction a)
  case Nil
  then show ?case by (simp add: replace_first_prefix)
next
  case (Cons x a)
  have nohead: "\<not> prefix pat (x # a @ pat @ b)"
    using Cons.prems by (auto dest: spec [of _ 0])
  have "\<forall>i<length a. \<not> prefix pat (drop i (a @ pat @ b))"
  proof (intro allI impI)
    fix i assume "i < length a"
    then have "Suc i < length (x # a)" by simp
    with Cons.prems have "\<not> prefix pat (drop (Suc i) ((x # a) @ pat @ b))" by blast
    then show "\<not> prefix pat (drop i (a @ pat @ b))" by simp
  qed
  with Cons.IH have "replace_first pat rep (a @ pat @ b) = a @ rep @ b" .
  with nohead show ?case by simp
qed

lemma getInspectorUrl_fst:
  "fst (getInspectorUrl e project org team c) =
     (case fetch e (fetched c) of
        Inl _ \<Rightarrow> None
      | Inr proj \<Rightarrow>
          (case first_deployment proj of
             None \<Rightarrow> None
           | Some d \<Rightarrow>
               (case dpl_id d of
                  None \<Rightarrow> None
                | Some s \<Rightarrow>
                    if replace_first ''dpl_'' [] s = [] then None
                    else Some (getDashboardUrl org project @ ''/'' @ replace_first ''dpl_'' [] s))))"
  by (simp add: getInspectorUrl_def getProject_eq getDashboardUrl_def Let_def
        split: sum.splits option.splits)

lemma getLatestDeploymentUrl_fst:
  "fst (getLatestDeploymentUrl e project team c) =
     (case fetch e (fetched c) of
        Inl _ \<Rightarrow> None
      | Inr proj \<Rightarrow>
          (case first_deployment proj of
             None \<Rightarrow> None
           | Some d \<Rightarrow>
               (case dpl_url d of
                  None \<Rightarrow> None
                | Some s \<Rightarrow> if s = [] then None else Some (''https://'' @ s))))"
  by (simp add: getLatestDeploymentUrl_def getProject_eq
        split: sum.splits option.splits)

lemma getLatestProdDeployment_fst:
  "fst (getLatestProdDeployment e project team c) =
     (case fetch e (fetched c) of
        Inl _ \<Rightarrow> None
      | Inr proj \<Rightarrow>
          (case proj_targets proj of
             None \<Rightarrow> None
           | Some t \<Rightarrow>
               (case production t of
                  None \<Rightarrow> None
                | Some d \<Rightarrow> Some (''https://'' @ template (dpl_url d)))))"
  by (simp add: getLatestProdDeployment_def getProject_eq
        split: sum.splits option.splits)

subsection \<open>The inspector URL\<close>

text \<open>
  C2. When the record fetched by \<open>getInspectorUrl\<close> has a first latest deployment with id
  \<open>dpl_abc123\<close>, the helper answers \<open>https://vercel.com/{org}/{project}/abc123\<close>, with the
  slug of the org and the name of the linked project.
\<close>

theorem getInspectorUrl_strips_dpl:
  assumes "fetch e (fetched c) = Inr proj"
    and "latestDeployments proj = Some (d # ds)"
    and "dpl_id d = Some ''dpl_abc123''"
  shows "fst (getInspectorUrl e project org team c) =
           Some (''https://vercel.com/'' @ org_slug org @ ''/'' @ proj_name project @ ''/abc123'')"
  using assms by (simp add: getInspectorUrl_fst first_deployment_def getDashboardUrl_def)

theorem getInspectorUrl_strips_dpl_witness:
  "fetch (deployed_env 1) (fetched fresh_client) = Inr deployed_site
   \<and> latestDeployments deployed_site =
       Some (\<lparr>dpl_id = Some ''dpl_abc123'', dpl_url = Some ''site-abc123.vercel.app''\<rparr> # [])
   \<and> fst (getInspectorUrl (deployed_env 1) site acme None
             fresh_client) = Some ''https://vercel.com/acme/site/abc123''"
proof -
  have h1: "fetch (deployed_env 1) (fetched fresh_client)
              = Inr deployed_site"
    by (simp add: deployed_env_def linked_env_def run_env_def)
  have h2: "latestDeployments deployed_site =
       Some (\<lparr>dpl_id = Some ''dpl_abc123'', dpl_url = Some ''site-abc123.vercel.app''\<rparr> # [])"
    by (simp add: deployed_site_def)
  have h3: "dpl_id \<lparr>dpl_id = Some ''dpl_abc123'', dpl_url = Some ''site-abc123.vercel.app''\<rparr>
              = Some ''dpl_abc123''"
    by simp
  show ?thesis
    using h1 h2 getInspectorUrl_strips_dpl [OF h1 h2 h3, of site acme None]
    by (simp add: site_def acme_def)
qed

subsection \<open>Lemmas on the linked run\<close>

lemma open_linked_eq:
  "open_linked e project org team c =
     pick_and_launch e (fst (resolve_menu e project org team c))
       (snd (resolve_menu e project org team c))"
  by (simp add: open_linked_def split: prod.splits)

lemma resolve_menu_effects:
  "effects (snd (resolve_menu e project org team c)) =
     effects c @ resolve_trace e project org team (fetched c)"
  by (simp add: resolve_menu_snd resolve_trace_def)

lemma resolve_menu_config:
  "config (snd (resolve_menu e project org team c)) =
     (config c)\<lparr>currentTeam := team_of_org org\<rparr>"
  by (simp add: resolve_menu_snd)

lemma resolve_menu_fst:
  "fst (resolve_menu e project org team c) =
     menu (getDashboardUrl org project)
       (case fetch e (fetched c) of
          Inl _ \<Rightarrow> None
        | Inr proj \<Rightarrow>
            (case first_deployment proj of
               None \<Rightarrow> None
             | Some d \<Rightarrow>
                 (case dpl_id d of
                    None \<Rightarrow> None
                  | Some s \<Rightarrow>
                      if replace_first ''dpl_'' [] s = [] then None
                      else Some (getDashboardUrl org project @ ''/'' @ replace_first ''dpl_'' [] s))))
       (case fetch e (fetched c + 1) of
          Inl _ \<Rightarrow> None
        | Inr proj \<Rightarrow>
            (case first_deployment proj of
               None \<Rightarrow> None
             | Some d \<Rightarrow>
                 (case dpl_url d of
                    None \<Rightarrow> None
                  | Some s \<Rightarrow> if s = [] then None else Some (''https://'' @ s))))
       (case fetch e (fetched c + 2) of
          Inl _ \<Rightarrow> None
        | Inr proj \<Rightarrow>
            (case proj_targets proj of
               None \<Rightarrow> None
             | Some t \<Rightarrow>
                 (case production t of
                    None \<Rightarrow> None
                  | Some d \<Rightarrow> Some (''https://'' @ template (dpl_url d)))))"
  by (simp add: resolve_menu_unfold Let_def getInspectorUrl_fst getLatestDeploymentUrl_fst
      getLatestProdDeployment_fst getInspectorUrl_snd getLatestDeploymentUrl_snd
      getLatestProdDeployment_snd getProject_eq emit_def)

lemma fetch_trace_kinds:
  "x \<in> set (fetch_trace e project team k) \<Longrightarrow> \<not> is_Execa x \<and> \<not> is_OutputLog x"
  by (auto simp: fetch_trace_def split: sum.splits)

lemma resolve_trace_kinds:
  "x \<in> set (resolve_trace e project org team k) \<Longrightarrow> \<not> is_Execa x \<and> \<not> is_OutputLog x"
  by (auto simp: resolve_trace_def dest: fetch_trace_kinds)

lemma filter_resolve_trace:
  "filter is_Execa (resolve_trace e project org team k) = []"
  "filter is_OutputLog (resolve_trace e project org team k) = []"
  by (auto simp: filter_empty_conv dest: resolve_trace_kinds)

text \<open>The three ways a linked run ends, by the answer of the prompt.\<close>

lemma open_linked_cases:
  "open_linked e project org team c =
     (let choices = fst (resolve_menu e project org team c);
          c3 = snd (resolve_menu e project org team c);
          ans = picked e project org team c;
          asked = ListPrompt ''What do you want to open?'' choices
      in if ans = ''not_found'' then
           (Returned 1,
            c3\<lparr>effects := effects c3 @ [asked, OutputLog (no_deployments_message e)]\<rparr>)
         else if ans = [] then (Returned 0, c3\<lparr>effects := effects c3 @ [asked]\<rparr>)
         else (Returned 0,
               c3\<lparr>effects := effects c3 @
                  [asked, Execa ''open'' [ans], OutputLog (opened_message e ans)]\<rparr>))"
  by (simp add: open_linked_eq pick_and_launch_def picked_def emit_def Let_def)

lemma new_effects_append: "effects c' = effects c @ xs \<Longrightarrow> new_effects c c' = xs"
  by (simp add: new_effects_def)

lemma linked_new_effects:
  "new_effects c (snd (open_linked e project org team c)) =
     resolve_trace e project org team (fetched c) @
       ListPrompt ''What do you want to open?'' (fst (resolve_menu e project org team c)) #
       (if picked e project org team c = ''not_found'' then [OutputLog (no_deployments_message e)]
        else if picked e project org team c = [] then []
        else [Execa ''open'' [picked e project org team c],
              OutputLog (opened_message e (picked e project org team c))])"
  by (rule new_effects_append) (simp add: open_linked_cases Let_def resolve_menu_effects)

lemma linked_fst:
  "fst (open_linked e project org team c) =
     (if picked e project org team c = ''not_found'' then Returned 1 else Returned 0)"
  by (simp add: open_linked_cases Let_def)

lemma linked_config:
  "config (snd (open_linked e project org team c)) =
     (config c)\<lparr>currentTeam := team_of_org org\<rparr>"
  by (simp add: open_linked_cases Let_def resolve_menu_config)

subsection \<open>The menu without deployments\<close>

text \<open>
  Records without a production target. In a linked run where every fetch answers a record
  that has no non-empty id and no non-empty url in its first latest deployment and no
  production target at all, the three deployment-derived choices carry \<open>not_found\<close>;
  when the user selects any of them the command prints the \<open>No deployments found\<close>
  message, as its last effect, and returns 1.
\<close>

lemma no_deployments_menu:
  assumes "linked_run e project org team"
    and "\<forall>k. \<exists>p. fetch e k = Inr p \<and> no_deployments p"
  shows "map choice_value (fst (resolve_menu e project org team c)) =
           [getDashboardUrl org project, ''not_found'', ''not_found'', ''not_found'']
         \<and> (picked e project org team c
               \<in> choice_value ` set (tl (fst (resolve_menu e project org team c))) \<longrightarrow>
             fst (open_cmd e c) = Returned 1 \<and>
             new_effects c (snd (open_cmd e c)) =
               resolve_trace e project org team (fetched c) @
                 [ListPrompt ''What do you want to open?''
                    (fst (resolve_menu e project org team c)),
                  OutputLog (no_deployments_message e)])"
proof -
  have none: "fst (resolve_menu e project org team c) =
                menu (getDashboardUrl org project) None None None"
  proof -
    obtain p0 where p0: "fetch e (fetched c) = Inr p0" "no_deployments p0"
      using assms(2) by blast
    obtain p1 where p1: "fetch e (Suc (fetched c)) = Inr p1" "no_deployments p1"
      using assms(2) by blast
    obtain p2 where p2: "fetch e (Suc (Suc (fetched c))) = Inr p2" "no_deployments p2"
      using assms(2) by blast
    have i: "(case first_deployment p0 of
               None \<Rightarrow> None
             | Some d \<Rightarrow>
                 (case dpl_id d of
                    None \<Rightarrow> None
                  | Some s \<Rightarrow>
                      if replace_first ''dpl_'' [] s = [] then None
                      else Some (getDashboardUrl org project @ ''/'' @ replace_first ''dpl_'' [] s)))
             = None"
      using p0(2) by (auto simp: no_deployments_def split: option.splits)
    have l: "(case first_deployment p1 of
               None \<Rightarrow> None
             | Some d \<Rightarrow>
                 (case dpl_url d of
                    None \<Rightarrow> None
                  | Some s \<Rightarrow> if s = [] then None else Some (''https://'' @ s))) = None"
      using p1(2) by (auto simp: no_deployments_def split: option.splits)
    have q: "(case proj_targets p2 of
               None \<Rightarrow> None
             | Some t \<Rightarrow>
                 (case production t of
                    None \<Rightarrow> None
                  | Some d \<Rightarrow> Some (''https://'' @ template (dpl_url d)))) = None"
      using p2(2) by (auto simp: no_deployments_def split: option.splits)
    show ?thesis
      by (simp add: resolve_menu_fst p0(1) p1(1) p2(1) i l q)
  qed
  have vals: "map choice_value (menu (getDashboardUrl org project) None None None) =
                [getDashboardUrl org project, ''not_found'', ''not_found'', ''not_found'']"
    by (simp add: menu_def or_else_def)
  have sel: "picked e project org team c
               \<in> choice_value ` set (tl (menu (getDashboardUrl org project) None None None))
             \<Longrightarrow> picked e project org team c = ''not_found''"
    by (auto simp: menu_def or_else_def)
  show ?thesis
    using sel
    by (simp add: open_cmd_linked [OF assms(1)] none vals linked_fst linked_new_effects)
qed

lemma no_deployments_menu_example:
  "linked_run (empty_env 2) site acme None
   \<and> no_deployments site
   \<and> map choice_value (fst (resolve_menu (empty_env 2) site acme None fresh_client)) =
       [''https://vercel.com/acme/site'', ''not_found'', ''not_found'', ''not_found'']
   \<and> picked (empty_env 2) site acme None fresh_client = ''not_found''
   \<and> fst (open_cmd (empty_env 2) fresh_client) = Returned 1
   \<and> new_effects fresh_client (snd (open_cmd (empty_env 2) fresh_client)) =
       [SetCurrentTeam (Some ''team_1''),
        Fetch ''/v9/projects/site?teamId='',
        Fetch ''/v9/projects/site?teamId='',
        Fetch ''/v9/projects/site?teamId='',
        ListPrompt ''What do you want to open?''
          (menu ''https://vercel.com/acme/site'' None None None),
        OutputLog ''No deployments found. Run vercel deploy to create a deployment.'']"
proof -
  have h1: "linked_run (empty_env 2) site acme None"
    by (simp add: linked_run_def empty_env_def linked_env_def run_env_def parsed_def personal_def)
  have nd: "no_deployments site"
    by (simp add: no_deployments_def site_def first_deployment_def)
  have h2: "\<forall>k. \<exists>p. fetch (empty_env 2) k = Inr p \<and> no_deployments p"
    using nd by (simp add: empty_env_def linked_env_def run_env_def)
  have m: "fst (resolve_menu (empty_env 2) site acme None fresh_client) =
             menu ''https://vercel.com/acme/site'' None None None"
    by (simp add: resolve_menu_fst empty_env_def linked_env_def run_env_def site_def acme_def
          first_deployment_def getDashboardUrl_def fresh_client_def)
  have pk: "picked (empty_env 2) site acme None fresh_client = ''not_found''"
    by (simp add: picked_def m)
       (simp add: empty_env_def linked_env_def run_env_def pick_nth_def menu_def or_else_def)
  have tr: "resolve_trace (empty_env 2) site acme None (fetched fresh_client) =
              [SetCurrentTeam (Some ''team_1''),
               Fetch ''/v9/projects/site?teamId='',
               Fetch ''/v9/projects/site?teamId='',
               Fetch ''/v9/projects/site?teamId='']"
    by (simp add: resolve_trace_def fetch_trace_def team_of_org_def project_url_def
          stringify_teamId_def empty_env_def linked_env_def run_env_def site_def acme_def)
  have msg: "no_deployments_message (empty_env 2) =
               ''No deployments found. Run vercel deploy to create a deployment.''"
    by (simp add: no_deployments_message_def empty_env_def linked_env_def run_env_def)
  show ?thesis
    using h1 nd no_deployments_menu [OF h1 h2, of fresh_client]
    by (simp add: pk m tr msg menu_def or_else_def)
qed

text \<open>
  C1. A record with no latest deployment id, no latest deployment url and no production
  target url should leave \<open>not_found\<close> in the three deployment-derived choices, and
  selecting any of them should print \<open>No deployments found\<close> and return 1. The command
  does not do so on the record \<open>urlless_site\<close>, which has no latest deployment and a
  production target without \<open>url\<close>: \<open>getLatestProdDeployment\<close> tests the target where
  its sibling \<open>getLatestDeploymentUrl\<close> tests the url, so the fourth choice carries
  \<open>https://undefined\<close>, and selecting it launches that URL, prints no
  \<open>No deployments found\<close> and returns 0.
\<close>

theorem urlless_production_opens_undefined:
  "linked_run urlless_env site acme None
   \<and> fetch urlless_env 0 = Inr urlless_site
   \<and> fetch urlless_env 1 = Inr urlless_site
   \<and> fetch urlless_env 2 = Inr urlless_site
   \<and> first_deployment urlless_site = None
   \<and> proj_targets urlless_site = Some \<lparr>production = Some \<lparr>dpl_id = None, dpl_url = None\<rparr>\<rparr>
   \<and> map choice_value (fst (resolve_menu urlless_env site acme None fresh_client)) =
       [''https://vercel.com/acme/site'', ''not_found'', ''not_found'', ''https://undefined'']
   \<and> choice_value (fst (resolve_menu urlless_env site acme None fresh_client) ! 3) \<noteq> ''not_found''
   \<and> picked urlless_env site acme None fresh_client =
       choice_value (fst (resolve_menu urlless_env site acme None fresh_client) ! 3)
   \<and> fst (open_cmd urlless_env fresh_client) = Returned 0
   \<and> fst (open_cmd urlless_env fresh_client) \<noteq> Returned 1
   \<and> filter is_Execa (new_effects fresh_client (snd (open_cmd urlless_env fresh_client))) =
       [Execa ''open'' [''https://undefined'']]
   \<and> OutputLog (no_deployments_message urlless_env)
       \<notin> set (new_effects fresh_client (snd (open_cmd urlless_env fresh_client)))"
proof -
  have h1: "linked_run urlless_env site acme None"
    by (simp add: linked_run_def urlless_env_def linked_env_def run_env_def parsed_def
          personal_def)
  have f: "fetch urlless_env k = Inr urlless_site" for k
    by (simp add: urlless_env_def linked_env_def run_env_def)
  have fd: "first_deployment urlless_site = None"
    by (simp add: first_deployment_def urlless_site_def)
  have tg: "proj_targets urlless_site =
              Some \<lparr>production = Some \<lparr>dpl_id = None, dpl_url = None\<rparr>\<rparr>"
    by (simp add: urlless_site_def)
  have m: "fst (resolve_menu urlless_env site acme None fresh_client) =
             menu ''https://vercel.com/acme/site'' None None (Some ''https://undefined'')"
    by (simp add: resolve_menu_fst f fd tg fresh_client_def)
       (simp add: getDashboardUrl_def site_def acme_def)
  have pk: "picked urlless_env site acme None fresh_client = ''https://undefined''"
    by (simp add: picked_def m)
       (simp add: urlless_env_def linked_env_def run_env_def pick_nth_def menu_def or_else_def)
  have ne: "new_effects fresh_client (snd (open_cmd urlless_env fresh_client)) =
              resolve_trace urlless_env site acme None 0 @
              [ListPrompt ''What do you want to open?''
                 (menu ''https://vercel.com/acme/site'' None None (Some ''https://undefined'')),
               Execa ''open'' [''https://undefined''],
               OutputLog (opened_message urlless_env ''https://undefined'')]"
    by (simp add: open_cmd_linked [OF h1] linked_new_effects pk m)
       (simp add: fresh_client_def)
  have nolog: "OutputLog (no_deployments_message urlless_env)
                 \<notin> set (resolve_trace urlless_env site acme None 0)"
    using resolve_trace_kinds [of "OutputLog (no_deployments_message urlless_env)"]
    by auto
  have differ: "opened_message urlless_env ''https://undefined''
                  \<noteq> no_deployments_message urlless_env"
    by (simp add: opened_message_def no_deployments_message_def)
  have r: "fst (open_cmd urlless_env fresh_client) = Returned 0"
    by (simp add: open_cmd_linked [OF h1] linked_fst pk)
  show ?thesis
    using h1 fd tg nolog differ
    by (simp add: f m pk ne r filter_resolve_trace)
       (simp add: menu_def or_else_def)
qed

subsection \<open>Abort and launch\<close>

text \<open>
  C3. In every linked run where the prompt answers the empty string, the command returns 0,
  and none of the effects it adds is a subprocess launch or an \<open>output.log\<close> line: the
  launcher is not invoked and the confirmation line is not printed.
\<close>

theorem abort_returns_zero:
  assumes "linked_run e project org team"
    and "picked e project org team c = []"
  shows "fst (open_cmd e c) = Returned 0
         \<and> (\<forall>x \<in> set (new_effects c (snd (open_cmd e c))). \<not> is_Execa x \<and> \<not> is_OutputLog x)"
  using assms(2)
  by (auto simp: open_cmd_linked [OF assms(1)] linked_fst linked_new_effects
        dest: resolve_trace_kinds)

theorem abort_returns_zero_witness:
  "linked_run abort_env site acme None
   \<and> picked abort_env site acme None fresh_client = []
   \<and> fst (open_cmd abort_env fresh_client) = Returned 0
   \<and> filter is_Execa (new_effects fresh_client (snd (open_cmd abort_env fresh_client))) = []
   \<and> filter is_OutputLog (new_effects fresh_client (snd (open_cmd abort_env fresh_client))) = []"
proof -
  have h1: "linked_run abort_env site acme None"
    by (simp add: linked_run_def abort_env_def linked_env_def run_env_def parsed_def
          personal_def)
  have h2: "picked abort_env site acme None fresh_client = []"
    by (simp add: picked_def abort_env_def linked_env_def run_env_def answer_def)
  show ?thesis
    using h1 h2 abort_returns_zero [OF h1 h2]
    by (simp add: filter_empty_conv)
qed

text \<open>
  C8. In every linked run where the prompt answers a value that is neither \<open>not_found\<close>
  nor empty, the command launches \<open>open\<close> with exactly that value as its only argument,
  after that prints one line, the confirmation built from the value, and returns 0. The
  subprocess is not awaited: nothing the command does afterwards depends on it.
\<close>

theorem launch_on_pick:
  assumes "linked_run e project org team"
    and "picked e project org team c \<noteq> ''not_found''"
    and "picked e project org team c \<noteq> []"
  shows "fst (open_cmd e c) = Returned 0
         \<and> new_effects c (snd (open_cmd e c)) =
             resolve_trace e project org team (fetched c) @
               [ListPrompt ''What do you want to open?''
                  (fst (resolve_menu e project org team c)),
                Execa ''open'' [picked e project org team c],
                OutputLog (opened_message e (picked e project org team c))]
         \<and> filter is_Execa (new_effects c (snd (open_cmd e c))) =
             [Execa ''open'' [picked e project org team c]]
         \<and> filter is_OutputLog (new_effects c (snd (open_cmd e c))) =
             [OutputLog (opened_message e (picked e project org team c))]
         \<and> suffix (link e (picked e project org team c))
             (opened_message e (picked e project org team c))"
  using assms(2,3)
  by (simp add: open_cmd_linked [OF assms(1)] linked_fst linked_new_effects
        filter_resolve_trace opened_message_def suffix_def)

theorem launch_on_pick_witness:
  "linked_run (deployed_env 2) site acme None
   \<and> picked (deployed_env 2) site acme None fresh_client = ''https://site-abc123.vercel.app''
   \<and> fst (open_cmd (deployed_env 2) fresh_client) = Returned 0
   \<and> filter is_Execa (new_effects fresh_client (snd (open_cmd (deployed_env 2) fresh_client))) =
       [Execa ''open'' [''https://site-abc123.vercel.app'']]
   \<and> filter is_OutputLog
         (new_effects fresh_client (snd (open_cmd (deployed_env 2) fresh_client))) =
       [OutputLog ([CHR 0xF0, CHR 0x9F, CHR 0xAA, CHR 0x84] @
                   '' Opened https://site-abc123.vercel.app'')]"
proof -
  have h1: "linked_run (deployed_env 2) site acme None"
    by (simp add: linked_run_def deployed_env_def linked_env_def run_env_def parsed_def
          personal_def)
  have f: "fetch (deployed_env 2) (Suc 0) = Inr deployed_site"
    by (simp add: deployed_env_def linked_env_def run_env_def)
  have pk: "picked (deployed_env 2) site acme None fresh_client =
              ''https://site-abc123.vercel.app''"
    by (simp add: picked_def resolve_menu_fst fresh_client_def f)
       (simp add: deployed_env_def linked_env_def run_env_def pick_nth_def menu_def
          or_else_def deployed_site_def first_deployment_def)
  have h2: "picked (deployed_env 2) site acme None fresh_client \<noteq> ''not_found''"
    by (simp add: pk)
  have h3: "picked (deployed_env 2) site acme None fresh_client \<noteq> []"
    by (simp add: pk)
  have msg: "opened_message (deployed_env 2) ''https://site-abc123.vercel.app'' =
               [CHR 0xF0, CHR 0x9F, CHR 0xAA, CHR 0x84] @
                   '' Opened https://site-abc123.vercel.app''"
    by (simp add: opened_message_def deployed_env_def linked_env_def run_env_def)
  show ?thesis
    using h1 launch_on_pick [OF h1 h2 h3]
    by (simp add: pk msg filter_resolve_trace)
qed

subsection \<open>Errors\<close>

text \<open>
  C4. When a fetch is rejected, \<open>getProject\<close> catches the error, passes its message to
  \<open>output.error\<close> and answers \<open>undefined\<close>, and so does each of the three URL helpers.
  The command continues: whatever the fetches answer, a linked run reaches the prompt and
  returns a number, never throws; every rejected fetch leaves its message in the effects;
  and the number is 0 unless the user selects \<open>not_found\<close>.
\<close>

theorem fetch_error_not_fatal:
  "(fetch e (fetched c) = Inl err \<longrightarrow>
      getProject e project team c =
        (None, c\<lparr>fetched := Suc (fetched c),
                 effects := effects c @
                   [Fetch (project_url e project team), OutputError (err_message err)]\<rparr>)
      \<and> fst (getInspectorUrl e project org team c) = None
      \<and> fst (getLatestDeploymentUrl e project team c) = None
      \<and> fst (getLatestProdDeployment e project team c) = None)
   \<and> (linked_run e project org team \<longrightarrow>
        (\<exists>n. fst (open_cmd e c) = Returned n \<and>
              (n = 0 \<or> n = 1 \<and> picked e project org team c = ''not_found''))
        \<and> ListPrompt ''What do you want to open?'' (fst (resolve_menu e project org team c))
             \<in> set (new_effects c (snd (open_cmd e c)))
        \<and> (\<forall>k \<in> {fetched c, fetched c + 1, fetched c + 2}. \<forall>x.
              fetch e k = Inl x \<longrightarrow>
              OutputError (err_message x) \<in> set (new_effects c (snd (open_cmd e c))))
        \<and> ((\<forall>k \<in> {fetched c, fetched c + 1, fetched c + 2}. \<exists>x. fetch e k = Inl x) \<longrightarrow>
              map choice_value (fst (resolve_menu e project org team c)) =
                [getDashboardUrl org project, ''not_found'', ''not_found'', ''not_found'']))"
proof -
  have helpers:
    "getProject e project team c =
        (None, c\<lparr>fetched := Suc (fetched c),
                 effects := effects c @
                   [Fetch (project_url e project team), OutputError (err_message err)]\<rparr>)
      \<and> fst (getInspectorUrl e project org team c) = None
      \<and> fst (getLatestDeploymentUrl e project team c) = None
      \<and> fst (getLatestProdDeployment e project team c) = None"
    if "fetch e (fetched c) = Inl err"
    using that
    by (simp add: getProject_eq fetch_trace_def getInspectorUrl_fst getLatestDeploymentUrl_fst
          getLatestProdDeployment_fst)
  have logged: "OutputError (err_message x) \<in> set (fetch_trace e project team k)"
    if "fetch e k = Inl x" for k x
    using that by (simp add: fetch_trace_def)
  have run:
    "(\<exists>n. fst (open_cmd e c) = Returned n \<and>
              (n = 0 \<or> n = 1 \<and> picked e project org team c = ''not_found''))
        \<and> ListPrompt ''What do you want to open?'' (fst (resolve_menu e project org team c))
             \<in> set (new_effects c (snd (open_cmd e c)))
        \<and> (\<forall>k \<in> {fetched c, fetched c + 1, fetched c + 2}. \<forall>x.
              fetch e k = Inl x \<longrightarrow>
              OutputError (err_message x) \<in> set (new_effects c (snd (open_cmd e c))))
        \<and> ((\<forall>k \<in> {fetched c, fetched c + 1, fetched c + 2}. \<exists>x. fetch e k = Inl x) \<longrightarrow>
              map choice_value (fst (resolve_menu e project org team c)) =
                [getDashboardUrl org project, ''not_found'', ''not_found'', ''not_found''])"
    if l: "linked_run e project org team"
  proof (intro conjI)
    show "\<exists>n. fst (open_cmd e c) = Returned n \<and>
              (n = 0 \<or> n = 1 \<and> picked e project org team c = ''not_found'')"
      by (simp add: open_cmd_linked [OF l] linked_fst)
    show "ListPrompt ''What do you want to open?'' (fst (resolve_menu e project org team c))
             \<in> set (new_effects c (snd (open_cmd e c)))"
      by (simp add: open_cmd_linked [OF l] linked_new_effects)
    show "\<forall>k \<in> {fetched c, fetched c + 1, fetched c + 2}. \<forall>x.
              fetch e k = Inl x \<longrightarrow>
              OutputError (err_message x) \<in> set (new_effects c (snd (open_cmd e c)))"
      using logged
      by (auto simp: open_cmd_linked [OF l] linked_new_effects resolve_trace_def)
    show "(\<forall>k \<in> {fetched c, fetched c + 1, fetched c + 2}. \<exists>x. fetch e k = Inl x) \<longrightarrow>
              map choice_value (fst (resolve_menu e project org team c)) =
                [getDashboardUrl org project, ''not_found'', ''not_found'', ''not_found'']"
      by (auto simp: resolve_menu_fst menu_def or_else_def)
  qed
  show ?thesis
    using helpers run by blast
qed

theorem fetch_error_not_fatal_witness:
  "fetch failing_env (fetched fresh_client) = Inl (boom ''ECONNRESET'')
   \<and> linked_run failing_env site acme None
   \<and> getProject failing_env site None fresh_client =
       (None, fresh_client\<lparr>fetched := 1,
                effects := [Fetch ''/v9/projects/site?teamId='',
                            OutputError ''failed: ECONNRESET'']\<rparr>)
   \<and> fst (getInspectorUrl failing_env site acme None fresh_client) = None
   \<and> fst (getLatestDeploymentUrl failing_env site None fresh_client) = None
   \<and> fst (getLatestProdDeployment failing_env site None fresh_client) = None
   \<and> fst (open_cmd failing_env fresh_client) = Returned 0
   \<and> OutputError ''failed: ECONNRESET''
        \<in> set (new_effects fresh_client (snd (open_cmd failing_env fresh_client)))
   \<and> map choice_value (fst (resolve_menu failing_env site acme None fresh_client)) =
        [''https://vercel.com/acme/site'', ''not_found'', ''not_found'', ''not_found'']"
proof -
  have f: "fetch failing_env k = Inl (boom ''ECONNRESET'')" for k
    by (simp add: failing_env_def linked_env_def run_env_def)
  have h1: "linked_run failing_env site acme None"
    by (simp add: linked_run_def failing_env_def linked_env_def run_env_def parsed_def
          personal_def)
  have m: "fst (resolve_menu failing_env site acme None fresh_client) =
             menu ''https://vercel.com/acme/site'' None None None"
    by (simp add: resolve_menu_fst f) (simp add: getDashboardUrl_def site_def acme_def)
  have pk: "picked failing_env site acme None fresh_client = ''https://vercel.com/acme/site''"
    by (simp add: picked_def m)
       (simp add: failing_env_def linked_env_def run_env_def pick_nth_def menu_def)
  have u: "project_url failing_env site None = ''/v9/projects/site?teamId=''"
    by (simp add: project_url_def stringify_teamId_def site_def)
  have d: "getDashboardUrl acme site = ''https://vercel.com/acme/site''"
    by (simp add: getDashboardUrl_def site_def acme_def)
  show ?thesis
    using h1 fetch_error_not_fatal [of failing_env fresh_client "boom ''ECONNRESET''"
        site None acme]
    by (simp add: f pk u d boom_def ex_disj_distrib) (simp add: fresh_client_def)
qed

text \<open>
  C6. When the arguments parse, help is not asked for and scope resolution throws: an error
  whose code is \<open>NOT_AUTHORIZED\<close> or \<open>TEAM_DELETED\<close> has its message passed to
  \<open>output.error\<close>, and the command returns 1 with no other effect; an error with any other
  code is rethrown as it is, the client untouched.
\<close>

theorem scope_error_handling:
  assumes "getArgs e = Inr a"
    and "\<not> arg_help a"
    and "getScope e = Inl err"
  shows "(err_code err = Some ''NOT_AUTHORIZED'' \<or> err_code err = Some ''TEAM_DELETED'' \<longrightarrow>
            open_cmd e c = (Returned 1, c\<lparr>effects := effects c @ [OutputError (err_message err)]\<rparr>))
         \<and> (err_code err \<noteq> Some ''NOT_AUTHORIZED'' \<and> err_code err \<noteq> Some ''TEAM_DELETED'' \<longrightarrow>
            open_cmd e c = (Thrown err, c))"
  using assms by (simp add: open_cmd_def emit_def)

theorem scope_error_handling_witness:
  "getArgs (scope_error_env ''TEAM_DELETED'') = Inr \<lparr>arg_help = False, arg_yes = False\<rparr>
   \<and> getScope (scope_error_env ''TEAM_DELETED'') = Inl (boom ''TEAM_DELETED'')
   \<and> open_cmd (scope_error_env ''TEAM_DELETED'') fresh_client =
       (Returned 1, fresh_client\<lparr>effects := [OutputError ''failed: TEAM_DELETED'']\<rparr>)
   \<and> getArgs (scope_error_env ''ENOTFOUND'') = Inr \<lparr>arg_help = False, arg_yes = False\<rparr>
   \<and> getScope (scope_error_env ''ENOTFOUND'') = Inl (boom ''ENOTFOUND'')
   \<and> open_cmd (scope_error_env ''ENOTFOUND'') fresh_client =
       (Thrown (boom ''ENOTFOUND''), fresh_client)"
proof -
  have a: "getArgs (scope_error_env code) = Inr \<lparr>arg_help = False, arg_yes = False\<rparr>" for code
    by (simp add: scope_error_env_def run_env_def parsed_def)
  have h: "\<not> arg_help \<lparr>arg_help = False, arg_yes = False\<rparr>"
    by simp
  have s: "getScope (scope_error_env code) = Inl (boom code)" for code
    by (simp add: scope_error_env_def run_env_def)
  show ?thesis
    using scope_error_handling [OF a h s, of "''TEAM_DELETED''" fresh_client]
      scope_error_handling [OF a h s, of "''ENOTFOUND''" fresh_client]
    by (simp add: a s) (simp add: boom_def fresh_client_def)
qed

subsection \<open>The Dashboard choice\<close>

text \<open>
  C7. In every linked run, whatever the three fetches answer (\<open>f\<close> is any assignment of
  answers), the first choice of the menu is the Dashboard and its value is
  \<open>https://vercel.com/{org.slug}/{project.name}\<close>, a function of the linked org and project
  alone (\<open>getDashboardUrl\<close> takes neither the client nor the environment). The value is
  neither \<open>not_found\<close> nor empty, and when the user selects it the command launches \<open>open\<close>
  on it and returns 0.
\<close>

theorem dashboard_always_offered:
  assumes "linked_run e project org team"
  shows "choice_name (hd (fst (resolve_menu (e\<lparr>fetch := f\<rparr>) project org team c))) = ''Dashboard''
         \<and> choice_value (hd (fst (resolve_menu (e\<lparr>fetch := f\<rparr>) project org team c))) =
             ''https://vercel.com/'' @ org_slug org @ ''/'' @ proj_name project
         \<and> getDashboardUrl org project =
             ''https://vercel.com/'' @ org_slug org @ ''/'' @ proj_name project
         \<and> getDashboardUrl org project \<noteq> ''not_found''
         \<and> getDashboardUrl org project \<noteq> []
         \<and> (picked (e\<lparr>fetch := f\<rparr>) project org team c = getDashboardUrl org project \<longrightarrow>
              fst (open_cmd (e\<lparr>fetch := f\<rparr>) c) = Returned 0 \<and>
              filter is_Execa (new_effects c (snd (open_cmd (e\<lparr>fetch := f\<rparr>) c))) =
                [Execa ''open'' [getDashboardUrl org project]])"
proof -
  have l: "linked_run (e\<lparr>fetch := f\<rparr>) project org team"
    using assms
    by (simp add: linked_run_def split: sum.splits validate_result.splits)
  have ne: "getDashboardUrl org project \<noteq> ''not_found''" "getDashboardUrl org project \<noteq> []"
    by (simp_all add: getDashboardUrl_def)
  show ?thesis
    using ne
    by (simp add: open_cmd_linked [OF l] linked_fst linked_new_effects filter_resolve_trace
          resolve_menu_fst menu_def)
       (simp add: getDashboardUrl_def)
qed

theorem dashboard_always_offered_witness:
  "linked_run failing_env site acme None
   \<and> choice_value (hd (fst (resolve_menu failing_env site acme None fresh_client))) =
       ''https://vercel.com/acme/site''
   \<and> picked failing_env site acme None fresh_client = ''https://vercel.com/acme/site''
   \<and> fst (open_cmd failing_env fresh_client) = Returned 0
   \<and> filter is_Execa (new_effects fresh_client (snd (open_cmd failing_env fresh_client))) =
       [Execa ''open'' [''https://vercel.com/acme/site'']]"
proof -
  have h1: "linked_run failing_env site acme None"
    by (simp add: linked_run_def failing_env_def linked_env_def run_env_def parsed_def
          personal_def)
  have same: "failing_env\<lparr>fetch := fetch failing_env\<rparr> = failing_env"
    by simp
  have d: "getDashboardUrl acme site = ''https://vercel.com/acme/site''"
    by (simp add: getDashboardUrl_def site_def acme_def)
  have pk: "picked failing_env site acme None fresh_client = ''https://vercel.com/acme/site''"
    by (simp add: picked_def resolve_menu_fst d)
       (simp add: failing_env_def linked_env_def run_env_def pick_nth_def menu_def)
  have n: "org_slug acme = ''acme''" "proj_name site = ''site''"
    by (simp_all add: site_def acme_def)
  show ?thesis
    using h1 dashboard_always_offered [OF h1, of "fetch failing_env" fresh_client]
    by (simp add: same d pk n)
qed

subsection \<open>The client configuration\<close>

text \<open>
  C9. In every linked run the command assigns \<open>client.config.currentTeam\<close>: the id of the
  org when its type is \<open>team\<close>, \<open>undefined\<close> otherwise, whatever was there before. The
  assignment is the first effect of the linked part of the run, directly followed by the
  first fetch, and it is the only one: the final configuration is the initial one with that
  field replaced. In every run, linked or not, the other fields are left as they were.
\<close>

theorem currentTeam_assigned_before_fetch:
  "(linked_run e project org team \<longrightarrow>
      config (snd (open_cmd e c)) =
        (config c)\<lparr>currentTeam := (if org_type org = OrgTeam then Some (org_id org) else None)\<rparr>
      \<and> (\<exists>rest. new_effects c (snd (open_cmd e c)) =
            SetCurrentTeam (if org_type org = OrgTeam then Some (org_id org) else None) #
            Fetch (project_url e project team) # rest))
   \<and> other (config (snd (open_cmd e c))) = other (config c)"
proof -
  have frame: "other (config (snd (open_cmd e c))) = other (config c)"
    by (simp add: open_cmd_def emit_def linked_config Let_def
          split: sum.splits validate_result.splits link_result.splits)
  have linked:
    "config (snd (open_cmd e c)) =
        (config c)\<lparr>currentTeam := (if org_type org = OrgTeam then Some (org_id org) else None)\<rparr>
      \<and> (\<exists>rest. new_effects c (snd (open_cmd e c)) =
            SetCurrentTeam (if org_type org = OrgTeam then Some (org_id org) else None) #
            Fetch (project_url e project team) # rest)"
    if l: "linked_run e project org team"
    by (simp add: open_cmd_linked [OF l] linked_config linked_new_effects resolve_trace_def
          fetch_trace_def team_of_org_def)
  show ?thesis
    using frame linked by blast
qed

theorem currentTeam_assigned_before_fetch_witness:
  "linked_run (deployed_env 0) site acme None
   \<and> config fresh_client = \<lparr>currentTeam = Some ''team_0'', other = ()\<rparr>
   \<and> config (snd (open_cmd (deployed_env 0) fresh_client)) =
       \<lparr>currentTeam = Some ''team_1'', other = ()\<rparr>
   \<and> take 2 (new_effects fresh_client (snd (open_cmd (deployed_env 0) fresh_client))) =
       [SetCurrentTeam (Some ''team_1''), Fetch ''/v9/projects/site?teamId='']"
proof -
  have h1: "linked_run (deployed_env 0) site acme None"
    by (simp add: linked_run_def deployed_env_def linked_env_def run_env_def parsed_def
          personal_def)
  have u: "project_url (deployed_env 0) site None = ''/v9/projects/site?teamId=''"
    by (simp add: project_url_def stringify_teamId_def site_def)
  show ?thesis
    using h1 currentTeam_assigned_before_fetch [of "deployed_env 0" site acme None fresh_client]
    by (auto simp: u acme_def) (simp_all add: fresh_client_def)
qed

subsection \<open>The id in the inspector URL\<close>

text \<open>
  C10. \<open>getInspectorUrl\<close> removes the first occurrence of \<open>dpl_\<close> from the id of the first
  latest deployment, wherever it stands, and nothing else: an id \<open>a @ dpl_ @ b\<close> in which no
  occurrence starts inside \<open>a\<close> becomes \<open>a @ b\<close>, so an inner occurrence is removed and
  of two occurrences the second stays. The URL ends with the id so replaced; when the id is
  absent or empty (or nothing is left of it), the helper answers \<open>undefined\<close>.
\<close>

theorem inspector_id_first_occurrence:
  "((\<forall>i<length a. \<not> prefix ''dpl_'' (drop i (a @ ''dpl_'' @ b))) \<longrightarrow>
      replace_first ''dpl_'' [] (a @ ''dpl_'' @ b) = a @ b)
   \<and> replace_first ''dpl_'' [] ''my_dpl_id'' = ''my_id''
   \<and> replace_first ''dpl_'' [] ''dpl_dpl_x'' = ''dpl_x''
   \<and> (fetch e (fetched c) = Inr proj \<longrightarrow> latestDeployments proj = Some (d # ds) \<longrightarrow>
       dpl_id d = Some s \<longrightarrow>
         fst (getInspectorUrl e project org team c) =
           (if replace_first ''dpl_'' [] s = [] then None
            else Some (''https://vercel.com/'' @ org_slug org @ ''/'' @ proj_name project @ ''/'' @
                         replace_first ''dpl_'' [] s)))
   \<and> (fetch e (fetched c) = Inr proj \<longrightarrow>
       (latestDeployments proj = None \<or> latestDeployments proj = Some [] \<or>
        (\<exists>d ds. latestDeployments proj = Some (d # ds) \<and>
                 (dpl_id d = None \<or> dpl_id d = Some []))) \<longrightarrow>
         fst (getInspectorUrl e project org team c) = None)"
proof (intro conjI impI)
  assume "\<forall>i<length a. \<not> prefix ''dpl_'' (drop i (a @ ''dpl_'' @ b))"
  then show "replace_first ''dpl_'' [] (a @ ''dpl_'' @ b) = a @ b"
    using replace_first_at [of a "''dpl_''" b "[]"] by simp
next
  show "replace_first ''dpl_'' [] ''my_dpl_id'' = ''my_id''"
    by simp
next
  show "replace_first ''dpl_'' [] ''dpl_dpl_x'' = ''dpl_x''"
    by simp
next
  assume "fetch e (fetched c) = Inr proj" "latestDeployments proj = Some (d # ds)"
    "dpl_id d = Some s"
  then show "fst (getInspectorUrl e project org team c) =
           (if replace_first ''dpl_'' [] s = [] then None
            else Some (''https://vercel.com/'' @ org_slug org @ ''/'' @ proj_name project @ ''/'' @
                         replace_first ''dpl_'' [] s))"
    by (simp add: getInspectorUrl_fst first_deployment_def getDashboardUrl_def)
next
  assume "fetch e (fetched c) = Inr proj"
    "latestDeployments proj = None \<or> latestDeployments proj = Some [] \<or>
        (\<exists>d ds. latestDeployments proj = Some (d # ds) \<and>
                 (dpl_id d = None \<or> dpl_id d = Some []))"
  then show "fst (getInspectorUrl e project org team c) = None"
    by (auto simp: getInspectorUrl_fst first_deployment_def)
qed

theorem inspector_id_first_occurrence_witness:
  "replace_first ''dpl_'' [] (''my_'' @ ''dpl_'' @ ''id_dpl_7'') = ''my_id_dpl_7''
   \<and> fetch (deployed_env 1) (fetched fresh_client) = Inr deployed_site
   \<and> latestDeployments deployed_site =
       Some (\<lparr>dpl_id = Some ''dpl_abc123'', dpl_url = Some ''site-abc123.vercel.app''\<rparr> # [])
   \<and> fst (getInspectorUrl (deployed_env 1) site acme None fresh_client) =
       Some ''https://vercel.com/acme/site/abc123''
   \<and> fetch (empty_env 1) (fetched fresh_client) = Inr site
   \<and> latestDeployments site = None
   \<and> fst (getInspectorUrl (empty_env 1) site acme None fresh_client) = None"
proof -
  have first: "\<forall>i<length ''my_''. \<not> prefix ''dpl_'' (drop i (''my_'' @ ''dpl_'' @ ''id_dpl_7''))"
    by (simp add: less_Suc_eq)
  have f1: "fetch (deployed_env 1) (fetched fresh_client) = Inr deployed_site"
    by (simp add: deployed_env_def linked_env_def run_env_def)
  have l1: "latestDeployments deployed_site =
       Some (\<lparr>dpl_id = Some ''dpl_abc123'', dpl_url = Some ''site-abc123.vercel.app''\<rparr> # [])"
    by (simp add: deployed_site_def)
  have f2: "fetch (empty_env 1) (fetched fresh_client) = Inr site"
    by (simp add: empty_env_def linked_env_def run_env_def)
  have l2: "latestDeployments site = None"
    by (simp add: site_def)
  have n: "org_slug acme = ''acme''" "proj_name site = ''site''"
    by (simp_all add: site_def acme_def)
  show ?thesis
    using first f1 l1 f2 l2
      inspector_id_first_occurrence [of "''my_''" "''id_dpl_7''" "deployed_env 1" fresh_client
        deployed_site "\<lparr>dpl_id = Some ''dpl_abc123'', dpl_url = Some ''site-abc123.vercel.app''\<rparr>"
        "[]" "''dpl_abc123''" site acme None]
      inspector_id_first_occurrence [of "''my_''" "''id_dpl_7''" "empty_env 1" fresh_client
        site "\<lparr>dpl_id = None, dpl_url = None\<rparr>" "[]" "[]" site acme None]
    by (simp add: n)
qed

subsection \<open>Exit codes\<close>

text \<open>
  The interface description gives every input a return value among 0, 1 and 2, and two
  reasons for the value 1, an auth/team error and no deployment found. Two runs escape it.
  When \<open>getArgs\<close> throws, as on an unknown option, the command calls \<open>handleError\<close> and
  returns 1, though the scope would resolve and the record has deployments: the call of
  \<open>handleError\<close> is the only effect. When scope resolution throws an error whose code is
  neither \<open>NOT_AUTHORIZED\<close> nor \<open>TEAM_DELETED\<close>, the command throws that error and returns
  no value at all.
\<close>

theorem exit_code_counterexample:
  "getScope bad_args_env = personal
   \<and> fetch bad_args_env 0 = Inr deployed_site
   \<and> fst (open_cmd bad_args_env fresh_client) = Returned 1
   \<and> new_effects fresh_client (snd (open_cmd bad_args_env fresh_client)) =
       [HandleError (boom ''ARG_UNKNOWN_OPTION'')]
   \<and> getArgs (scope_error_env ''ENOTFOUND'') = parsed
   \<and> getScope (scope_error_env ''ENOTFOUND'') = Inl (boom ''ENOTFOUND'')
   \<and> helper_codes_in_range (scope_error_env ''ENOTFOUND'')
   \<and> open_cmd (scope_error_env ''ENOTFOUND'') fresh_client =
       (Thrown (boom ''ENOTFOUND''), fresh_client)
   \<and> fst (open_cmd (scope_error_env ''ENOTFOUND'') fresh_client) \<noteq> Returned 0
   \<and> fst (open_cmd (scope_error_env ''ENOTFOUND'') fresh_client) \<noteq> Returned 1
   \<and> fst (open_cmd (scope_error_env ''ENOTFOUND'') fresh_client) \<noteq> Returned 2"
  by (simp add: bad_args_env_def scope_error_env_def run_env_def open_cmd_def emit_def
        new_effects_def fresh_client_def parsed_def boom_def helper_codes_in_range_def
        link_code_in_range_def)

text \<open>
  C5, completed. For every input, the run of the command is fixed by the answers of its
  collaborators along the path it takes:
  \<^item> \<open>getArgs\<close> throws: \<open>handleError\<close> is called and the command returns 1;
  \<^item> help is asked for: it is printed and the command returns 2;
  \<^item> otherwise scope resolution throws an auth/team error: its message is printed and the
    command returns 1;
  \<^item> or it throws another error: the command throws it and returns nothing;
  \<^item> otherwise path validation fails: the command returns the exit code of \<open>validatePaths\<close>;
  \<^item> otherwise \<open>ensureLink\<close> answers a number: the command returns that number;
  \<^item> otherwise the project is linked and the menu shown: the command returns 1, after the
    \<open>No deployments found\<close> message, when \<open>not_found\<close> is selected, and 0 otherwise, after
    an abort or after the launch and its confirmation line.
  So, the codes handed over by path validation and project linking being among 0, 1 and 2,
  the command returns 0, 1 or 2 on every input on which it does not rethrow a scope error.
\<close>

theorem exit_code_mapping:
  "(getArgs e = Inl err \<longrightarrow>
      open_cmd e c = (Returned 1, c\<lparr>effects := effects c @ [HandleError err]\<rparr>))
   \<and> (getArgs e = Inr a \<longrightarrow> arg_help a \<longrightarrow>
      open_cmd e c = (Returned 2, c\<lparr>effects := effects c @ [PrintHelp]\<rparr>))
   \<and> (getArgs e = Inr a \<longrightarrow> \<not> arg_help a \<longrightarrow> getScope e = Inl err \<longrightarrow>
      auth_or_team_error err \<longrightarrow>
      open_cmd e c = (Returned 1, c\<lparr>effects := effects c @ [OutputError (err_message err)]\<rparr>))
   \<and> (getArgs e = Inr a \<longrightarrow> \<not> arg_help a \<longrightarrow> getScope e = Inl err \<longrightarrow>
      \<not> auth_or_team_error err \<longrightarrow>
      open_cmd e c = (Thrown err, c))
   \<and> (getArgs e = Inr a \<longrightarrow> \<not> arg_help a \<longrightarrow> getScope e = Inr s \<longrightarrow>
      validatePaths e [cwd e] = Invalid n \<longrightarrow>
      open_cmd e c = (Returned n, c))
   \<and> (getArgs e = Inr a \<longrightarrow> \<not> arg_help a \<longrightarrow> getScope e = Inr s \<longrightarrow>
      validatePaths e [cwd e] = Valid path \<longrightarrow>
      ensureLink e ''project connect'' path (arg_yes a) = LinkExit n \<longrightarrow>
      open_cmd e c = (Returned n, c))
   \<and> (linked_run e project org team \<longrightarrow>
      fst (open_cmd e c) =
        (if picked e project org team c = ''not_found'' then Returned 1 else Returned 0)
      \<and> new_effects c (snd (open_cmd e c)) =
          resolve_trace e project org team (fetched c) @
            ListPrompt ''What do you want to open?'' (fst (resolve_menu e project org team c)) #
            (if picked e project org team c = ''not_found''
             then [OutputLog (no_deployments_message e)]
             else if picked e project org team c = [] then []
             else [Execa ''open'' [picked e project org team c],
                   OutputLog (opened_message e (picked e project org team c))]))
   \<and> (helper_codes_in_range e \<longrightarrow>
      fst (open_cmd e c) \<in> {Returned 0, Returned 1, Returned 2}
      \<or> (\<exists>a' err'. getArgs e = Inr a' \<and> \<not> arg_help a' \<and> getScope e = Inl err' \<and>
             \<not> auth_or_team_error err' \<and> open_cmd e c = (Thrown err', c)))"
proof (intro conjI impI)
  assume "getArgs e = Inl err"
  then show "open_cmd e c = (Returned 1, c\<lparr>effects := effects c @ [HandleError err]\<rparr>)"
    by (simp add: open_cmd_def emit_def)
next
  assume "getArgs e = Inr a" "arg_help a"
  then show "open_cmd e c = (Returned 2, c\<lparr>effects := effects c @ [PrintHelp]\<rparr>)"
    by (simp add: open_cmd_def emit_def)
next
  assume "getArgs e = Inr a" "\<not> arg_help a" "getScope e = Inl err" "auth_or_team_error err"
  then show "open_cmd e c =
               (Returned 1, c\<lparr>effects := effects c @ [OutputError (err_message err)]\<rparr>)"
    by (simp add: open_cmd_def emit_def auth_or_team_error_def)
next
  assume "getArgs e = Inr a" "\<not> arg_help a" "getScope e = Inl err"
    "\<not> auth_or_team_error err"
  then show "open_cmd e c = (Thrown err, c)"
    by (simp add: open_cmd_def auth_or_team_error_def)
next
  assume "getArgs e = Inr a" "\<not> arg_help a" "getScope e = Inr s"
    "validatePaths e [cwd e] = Invalid n"
  then show "open_cmd e c = (Returned n, c)"
    by (simp add: open_cmd_def)
next
  assume "getArgs e = Inr a" "\<not> arg_help a" "getScope e = Inr s"
    "validatePaths e [cwd e] = Valid path"
    "ensureLink e ''project connect'' path (arg_yes a) = LinkExit n"
  then show "open_cmd e c = (Returned n, c)"
    by (simp add: open_cmd_def)
next
  assume l: "linked_run e project org team"
  show "fst (open_cmd e c) =
          (if picked e project org team c = ''not_found'' then Returned 1 else Returned 0)"
    by (simp add: open_cmd_linked [OF l] linked_fst)
  show "new_effects c (snd (open_cmd e c)) =
          resolve_trace e project org team (fetched c) @
            ListPrompt ''What do you want to open?'' (fst (resolve_menu e project org team c)) #
            (if picked e project org team c = ''not_found''
             then [OutputLog (no_deployments_message e)]
             else if picked e project org team c = [] then []
             else [Execa ''open'' [picked e project org team c],
                   OutputLog (opened_message e (picked e project org team c))])"
    by (simp add: open_cmd_linked [OF l] linked_new_effects)
next
  assume r: "helper_codes_in_range e"
  show "fst (open_cmd e c) \<in> {Returned 0, Returned 1, Returned 2}
      \<or> (\<exists>a' err'. getArgs e = Inr a' \<and> \<not> arg_help a' \<and> getScope e = Inl err' \<and>
             \<not> auth_or_team_error err' \<and> open_cmd e c = (Thrown err', c))"
  proof (cases "getArgs e")
    case (Inl x)
    then show ?thesis by (simp add: open_cmd_def)
  next
    case (Inr a')
    note a = this
    show ?thesis
    proof (cases "arg_help a'")
      case True
      with a show ?thesis by (simp add: open_cmd_def)
    next
      case False
      note nohelp = this
      show ?thesis
      proof (cases "getScope e")
        case (Inl err')
        with a nohelp show ?thesis
          by (simp add: open_cmd_def auth_or_team_error_def)
      next
        case (Inr s')
        note s = this
        show ?thesis
        proof (cases "validatePaths e [cwd e]")
          case (Invalid m)
          with a nohelp s r show ?thesis
            by (auto simp: open_cmd_def helper_codes_in_range_def)
        next
          case (Valid p)
          note v = this
          have both: "link_code_in_range (ensureLink e ''project connect'' p (arg_yes a'))"
            using r v by (cases "arg_yes a'") (simp_all add: helper_codes_in_range_def)
          show ?thesis
          proof (cases "ensureLink e ''project connect'' p (arg_yes a')")
            case (LinkExit m)
            with a nohelp s v both show ?thesis
              by (auto simp: open_cmd_def link_code_in_range_def)
          next
            case (Linked pr og)
            with a nohelp s v have "linked_run e pr og (scope_team s')"
              by (simp add: linked_run_def)
            then show ?thesis
              by (simp add: open_cmd_linked linked_fst)
          qed
        qed
      qed
    qed
  qed
qed

theorem exit_code_mapping_witness:
  "getArgs bad_args_env = Inl (boom ''ARG_UNKNOWN_OPTION'')
   \<and> open_cmd bad_args_env fresh_client =
       (Returned 1, fresh_client\<lparr>effects := [HandleError (boom ''ARG_UNKNOWN_OPTION'')]\<rparr>)
   \<and> getArgs help_env = Inr \<lparr>arg_help = True, arg_yes = False\<rparr>
   \<and> open_cmd help_env fresh_client = (Returned 2, fresh_client\<lparr>effects := [PrintHelp]\<rparr>)
   \<and> getScope (scope_error_env ''NOT_AUTHORIZED'') = Inl (boom ''NOT_AUTHORIZED'')
   \<and> auth_or_team_error (boom ''NOT_AUTHORIZED'')
   \<and> open_cmd (scope_error_env ''NOT_AUTHORIZED'') fresh_client =
       (Returned 1, fresh_client\<lparr>effects := [OutputError ''failed: NOT_AUTHORIZED'']\<rparr>)
   \<and> getScope (scope_error_env ''ENOTFOUND'') = Inl (boom ''ENOTFOUND'')
   \<and> open_cmd (scope_error_env ''ENOTFOUND'') fresh_client =
       (Thrown (boom ''ENOTFOUND''), fresh_client)
   \<and> validatePaths invalid_path_env [cwd invalid_path_env] = Invalid 1
   \<and> open_cmd invalid_path_env fresh_client = (Returned 1, fresh_client)
   \<and> ensureLink not_linked_env ''project connect'' ''/work'' False = LinkExit 0
   \<and> open_cmd not_linked_env fresh_client = (Returned 0, fresh_client)
   \<and> linked_run (deployed_env 2) site acme None
   \<and> picked (deployed_env 2) site acme None fresh_client = ''https://site-abc123.vercel.app''
   \<and> fst (open_cmd (deployed_env 2) fresh_client) = Returned 0
   \<and> helper_codes_in_range invalid_path_env
   \<and> fst (open_cmd invalid_path_env fresh_client) \<in> {Returned 0, Returned 1, Returned 2}"
proof -
  have args: "getArgs bad_args_env = Inl (boom ''ARG_UNKNOWN_OPTION'')"
    "getArgs help_env = Inr \<lparr>arg_help = True, arg_yes = False\<rparr>"
    "getArgs (scope_error_env code) = Inr \<lparr>arg_help = False, arg_yes = False\<rparr>"
    "getArgs invalid_path_env = Inr \<lparr>arg_help = False, arg_yes = False\<rparr>"
    "getArgs not_linked_env = Inr \<lparr>arg_help = False, arg_yes = False\<rparr>" for code
    by (simp_all add: bad_args_env_def help_env_def scope_error_env_def invalid_path_env_def
          not_linked_env_def run_env_def parsed_def)
  have scopes: "getScope (scope_error_env code) = Inl (boom code)"
    "getScope invalid_path_env = Inr \<lparr>scope_team = None\<rparr>"
    "getScope not_linked_env = Inr \<lparr>scope_team = None\<rparr>" for code
    by (simp_all add: scope_error_env_def invalid_path_env_def not_linked_env_def run_env_def
          personal_def)
  have auth: "auth_or_team_error (boom ''NOT_AUTHORIZED'')"
    "\<not> auth_or_team_error (boom ''ENOTFOUND'')"
    by (simp_all add: auth_or_team_error_def boom_def)
  have paths: "validatePaths invalid_path_env [cwd invalid_path_env] = Invalid 1"
    "validatePaths not_linked_env [cwd not_linked_env] = Valid ''/work''"
    by (simp_all add: invalid_path_env_def not_linked_env_def run_env_def)
  have lnk: "ensureLink not_linked_env ''project connect'' ''/work'' False = LinkExit 0"
    by (simp add: not_linked_env_def run_env_def)
  have l: "linked_run (deployed_env 2) site acme None"
    by (simp add: linked_run_def deployed_env_def linked_env_def run_env_def parsed_def
          personal_def)
  have f: "fetch (deployed_env 2) (Suc 0) = Inr deployed_site"
    by (simp add: deployed_env_def linked_env_def run_env_def)
  have pk: "picked (deployed_env 2) site acme None fresh_client =
              ''https://site-abc123.vercel.app''"
    by (simp add: picked_def resolve_menu_fst fresh_client_def f)
       (simp add: deployed_env_def linked_env_def run_env_def pick_nth_def menu_def
          or_else_def deployed_site_def first_deployment_def)
  have rng: "helper_codes_in_range invalid_path_env"
    by (simp add: helper_codes_in_range_def paths)
  have msg: "err_message (boom ''NOT_AUTHORIZED'') = ''failed: NOT_AUTHORIZED''"
    by (simp add: boom_def)
  have w1: "open_cmd bad_args_env fresh_client =
       (Returned 1, fresh_client\<lparr>effects := [HandleError (boom ''ARG_UNKNOWN_OPTION'')]\<rparr>)"
    using exit_code_mapping [where e = bad_args_env and c = fresh_client
        and err = "boom ''ARG_UNKNOWN_OPTION''" and a = "\<lparr>arg_help = True, arg_yes = False\<rparr>"
        and s = "\<lparr>scope_team = None\<rparr>" and n = 1 and path = "''/work''"
        and project = site and org = acme and team = None]
    by (simp add: args) (simp add: fresh_client_def)
  have w2: "open_cmd help_env fresh_client =
       (Returned 2, fresh_client\<lparr>effects := [PrintHelp]\<rparr>)"
    using exit_code_mapping [where e = help_env and c = fresh_client
        and err = "boom ''ENOTFOUND''" and a = "\<lparr>arg_help = True, arg_yes = False\<rparr>"
        and s = "\<lparr>scope_team = None\<rparr>" and n = 1 and path = "''/work''"
        and project = site and org = acme and team = None]
    by (simp add: args) (simp add: fresh_client_def)
  have w3: "open_cmd (scope_error_env ''NOT_AUTHORIZED'') fresh_client =
       (Returned 1, fresh_client\<lparr>effects := [OutputError ''failed: NOT_AUTHORIZED'']\<rparr>)"
    using exit_code_mapping [where e = "scope_error_env ''NOT_AUTHORIZED''" and c = fresh_client
        and err = "boom ''NOT_AUTHORIZED''" and a = "\<lparr>arg_help = False, arg_yes = False\<rparr>"
        and s = "\<lparr>scope_team = None\<rparr>" and n = 1 and path = "''/work''"
        and project = site and org = acme and team = None]
    by (simp add: args scopes auth msg) (simp add: fresh_client_def)
  have w4: "open_cmd (scope_error_env ''ENOTFOUND'') fresh_client =
       (Thrown (boom ''ENOTFOUND''), fresh_client)"
    using exit_code_mapping [where e = "scope_error_env ''ENOTFOUND''" and c = fresh_client
        and err = "boom ''ENOTFOUND''" and a = "\<lparr>arg_help = False, arg_yes = False\<rparr>"
        and s = "\<lparr>scope_team = None\<rparr>" and n = 1 and path = "''/work''"
        and project = site and org = acme and team = None]
    by (simp add: args scopes auth)
  have w5: "open_cmd invalid_path_env fresh_client = (Returned 1, fresh_client)"
    using exit_code_mapping [where e = invalid_path_env and c = fresh_client
        and err = "boom ''ENOTFOUND''" and a = "\<lparr>arg_help = False, arg_yes = False\<rparr>"
        and s = "\<lparr>scope_team = None\<rparr>" and n = 1 and path = "''/work''"
        and project = site and org = acme and team = None]
    by (simp add: args scopes paths)
  have w6: "open_cmd not_linked_env fresh_client = (Returned 0, fresh_client)"
    using exit_code_mapping [where e = not_linked_env and c = fresh_client
        and err = "boom ''ENOTFOUND''" and a = "\<lparr>arg_help = False, arg_yes = False\<rparr>"
        and s = "\<lparr>scope_team = None\<rparr>" and n = 0 and path = "''/work''"
        and project = site and org = acme and team = None]
    by (simp add: args scopes paths lnk)
  have w7: "fst (open_cmd (deployed_env 2) fresh_client) = Returned 0"
    using exit_code_mapping [where e = "deployed_env 2" and c = fresh_client
        and err = "boom ''ENOTFOUND''" and a = "\<lparr>arg_help = False, arg_yes = False\<rparr>"
        and s = "\<lparr>scope_team = None\<rparr>" and n = 0 and path = "''/work''"
        and project = site and org = acme and team = None]
    by (simp add: l pk)
  have w8: "fst (open_cmd invalid_path_env fresh_client)
              \<in> {Returned 0, Returned 1, Returned 2}"
    using rng exit_code_mapping [where e = invalid_path_env and c = fresh_client
        and err = "boom ''ENOTFOUND''" and a = "\<lparr>arg_help = False, arg_yes = False\<rparr>"
        and s = "\<lparr>scope_team = None\<rparr>" and n = 1 and path = "''/work''"
        and project = site and org = acme and team = None]
    by (simp add: scopes)
  show ?thesis
    using args(1,2) scopes(1) auth(1) paths(1) lnk l pk rng w1 w2 w3 w4 w5 w6 w7 w8
    by simp
qed

end
